theory Spec2Isabelle
  imports Main
begin

section \<open>Constants of the package\<close>

text \<open>
  Modelled from the spec: the handle, unit and data-source constants \<open>pytac.RB\<close>,
  \<open>pytac.SP\<close>, \<open>pytac.ENG\<close>, \<open>pytac.PHYS\<close>, \<open>pytac.LIVE\<close>, \<open>pytac.SIM\<close> and
  \<open>pytac.DEFAULT\<close> live in the package's \<open>__init__\<close> module, which is not among the
  sources. They are Python strings; \<open>EpicsLattice.set_values\<close> writes the setpoint
  handle as the literal \<open>'setpoint'\<close>. The proofs below use nothing about them beyond
  \<open>RB \<noteq> SP\<close>.
\<close>

definition RB :: string where "RB = ''readback''"
definition SP :: string where "SP = ''setpoint''"
definition ENG :: string where "ENG = ''engineering''"
definition PHYS :: string where "PHYS = ''physics''"
definition LIVE :: string where "LIVE = ''live''"
definition SIM :: string where "SIM = ''simulation''"
definition DEFAULT :: string where "DEFAULT = ''default''"

section \<open>Exceptions as values\<close>

text \<open>
  Every \<open>raise\<close> of the sources is a value \<open>(kind, message)\<close>. The kind is the
  exception class; the classes of \<open>pytac.exceptions\<close> are taken as unrelated
  siblings, so an \<open>except K\<close> clause catches exactly the errors of kind \<open>K\<close>. The
  message keeps the raise site and the arguments given to \<open>format\<close>. Where the source
  formats \<open>self\<close>, Python prints the object's class and identity; the message keeps
  the identity.
\<close>

datatype kind =
    ValueError
  | IndexError
  | KeyError
  | UnitsException
  | DataSourceException
  | HandleException
  | FieldException
  | OtherException string

datatype obj = Lattice_object nat | Element_object nat

datatype message =
    No_elements_in_family "string option"
  | No_elements_in_cell "int option"
  | Number_of_elements_must_be_equal
  | Is_not_a_unit_type string string string
  | Is_not_a_data_source string string string
  | No_data_source_on_lattice string obj
  | Lattice_does_not_have_field obj string
  | No_data_source_for_field_on_element string obj
  | No_field_on_element string obj
  | No_device_for_field_on_element string obj
  | At_least_one_PV_is_required string string
  | Device_has_no_setpoint_PV string
  | Device_has_no_PV string string
  | Missing_key string
  | Collaborator_message string

type_synonym error = "kind \<times> message"

section \<open>EpicsDevice\<close>

text \<open>
  An \<open>EpicsDevice\<close> holds its name and the two channel names, each of which may be
  \<open>None\<close>. The control system \<open>_cs\<close> is shared and external: the operations below
  take its \<open>get\<close> and \<open>put\<close> as arguments, acting on a state \<open>'w\<close> of the outside
  world.
\<close>

record epics_device =
  dev_name :: string
  rb_pv :: "string option"
  sp_pv :: "string option"

text \<open>Python's truth value of a channel argument: \<open>None\<close> and \<open>''\<close> are false.\<close>

fun truthy :: "string option \<Rightarrow> bool" where
  "truthy None = False"
| "truthy (Some pv) = (pv \<noteq> [])"

definition EpicsDevice :: "string \<Rightarrow> string option \<Rightarrow> string option \<Rightarrow> error + epics_device" where
  "EpicsDevice name rb sp =
     (if rb = None \<and> sp = None
      then Inl (DataSourceException, At_least_one_PV_is_required RB SP)
      else Inr \<lparr>dev_name = name, rb_pv = rb, sp_pv = sp\<rparr>)"

definition set_value_device ::
  "(string \<Rightarrow> 'v \<Rightarrow> 'w \<Rightarrow> 'w \<times> error option) \<Rightarrow> epics_device \<Rightarrow> 'v \<Rightarrow> 'w \<Rightarrow> 'w \<times> error option" where
  "set_value_device cs_put d v w =
     (case sp_pv d of
        None \<Rightarrow> (w, Some (HandleException, Device_has_no_setpoint_PV (dev_name d)))
      | Some pv \<Rightarrow> cs_put pv v w)"

definition get_value_device ::
  "(string \<Rightarrow> 'w \<Rightarrow> 'w \<times> (error + 'v)) \<Rightarrow> epics_device \<Rightarrow> string \<Rightarrow> 'w \<Rightarrow> 'w \<times> (error + 'v)" where
  "get_value_device cs_get d handle w =
     (if handle = RB \<and> truthy (rb_pv d) then cs_get (the (rb_pv d)) w
      else if handle = SP \<and> truthy (sp_pv d) then cs_get (the (sp_pv d)) w
      else (w, Inl (HandleException, Device_has_no_PV (dev_name d) handle)))"

definition get_pv_name_device :: "epics_device \<Rightarrow> string \<Rightarrow> error + string" where
  "get_pv_name_device d handle =
     (if handle = RB \<and> truthy (rb_pv d) then Inr (the (rb_pv d))
      else if handle = SP \<and> truthy (sp_pv d) then Inr (the (sp_pv d))
      else Inl (HandleException, Device_has_no_PV (dev_name d) handle))"

section \<open>Elements and the lattice\<close>

text \<open>
  A data source is represented by its \<open>get_device\<close> method, whose body is not among
  the sources: it maps a field to a device or raises. A \<open>DataSourceManager\<close> holds the
  two defaults and the data sources by type.
\<close>

type_synonym data_source = "string \<Rightarrow> error + epics_device"

record manager =
  default_units :: string
  default_data_source :: string
  data_sources :: "string \<rightharpoonup> data_source"

text \<open>
  Of an element, the lattice reads \<open>families\<close> (a set of labels), \<open>cell\<close> (an
  integer or \<open>None\<close>) and \<open>_data_source_manager\<close> (the field \<open>elem_manager\<close>);
  \<open>elem_id\<close> is the identity of the object. Of a lattice, \<open>elems\<close> is the list
  \<open>_lattice\<close> and \<open>lat_manager\<close> is \<open>_data_source_manager\<close>. \<open>Lattice i n m\<close> is
  the constructor: the new object has identity \<open>i\<close>, the name \<open>n\<close>, no elements and
  the fresh manager \<open>m\<close>.
\<close>

record element =
  elem_id :: nat
  families :: "string set"
  cell :: "int option"
  elem_manager :: manager

record lattice =
  lat_id :: nat
  name :: string
  elems :: "element list"
  lat_manager :: manager

definition Lattice :: "nat \<Rightarrow> string \<Rightarrow> manager \<Rightarrow> lattice" where
  "Lattice i n m = \<lparr>lat_id = i, name = n, elems = [], lat_manager = m\<rparr>"

definition add_element :: "lattice \<Rightarrow> element \<Rightarrow> lattice" where
  "add_element lat e = lat\<lparr>elems := elems lat @ [e]\<rparr>"

subsection \<open>get_elements\<close>

text \<open>
  \<open>family in element.families\<close>: the labels are strings, so an omitted family
  (\<open>None\<close>) is a member of no element's set.
\<close>

fun in_families :: "string option \<Rightarrow> element \<Rightarrow> bool" where
  "in_families None e = False"
| "in_families (Some f) e = (f \<in> families e)"

text \<open>
  The loop \<open>for element in self._lattice: if family in element.families:
  elements.append(element)\<close>, with the list built so far as accumulator.
\<close>

fun append_family :: "string option \<Rightarrow> element list \<Rightarrow> element list \<Rightarrow> element list" where
  "append_family family [] elements = elements"
| "append_family family (e # es) elements =
     append_family family es (if in_families family e then elements @ [e] else elements)"

text \<open>
  \<open>get_elements\<close>: the list starts as the whole lattice when no family is given and
  empty otherwise; the loop runs in both cases; then come the two emptiness checks
  (\<open>len(elements) is 0\<close>), the second after the optional cell filter.
\<close>

definition get_elements :: "lattice \<Rightarrow> string option \<Rightarrow> int option \<Rightarrow> error + element list" where
  "get_elements lat family cell_arg =
     (let elements0 = (if family = None then elems lat else []);
          elements1 = append_family family (elems lat) elements0
      in if length elements1 = 0 then Inl (ValueError, No_elements_in_family family)
         else
           let elements2 = (case cell_arg of
                              None \<Rightarrow> elements1
                            | Some c \<Rightarrow> filter (\<lambda>e. cell e = Some c) elements1)
           in if length elements2 = 0 then Inl (ValueError, No_elements_in_cell cell_arg)
              else Inr elements2)"

subsection \<open>Lattice.get_value and Lattice.set_value\<close>

text \<open>
  Both delegate to the lattice's \<open>DataSourceManager\<close>, whose \<open>get_value\<close> and
  \<open>set_value\<close> are not among the sources: they are the arguments \<open>mgr_get_value\<close>
  and \<open>mgr_set_value\<close>, acting on the state \<open>'w\<close> of the outside world. The two
  \<open>except\<close> clauses replace an error of kind \<open>DataSourceException\<close> or
  \<open>FieldException\<close>; every other outcome passes through. The defaults of the
  keyword arguments (\<open>handle\<close>, \<open>units\<close>, \<open>data_source\<close>) are supplied by the
  caller of the model.
\<close>

definition get_value_lattice ::
  "(manager \<Rightarrow> string \<Rightarrow> string \<Rightarrow> string \<Rightarrow> string \<Rightarrow> 'w \<Rightarrow> 'w \<times> (error + 'v))
     \<Rightarrow> lattice \<Rightarrow> string \<Rightarrow> string \<Rightarrow> string \<Rightarrow> string \<Rightarrow> 'w \<Rightarrow> 'w \<times> (error + 'v)" where
  "get_value_lattice mgr_get_value lat field handle units data_source w =
     (case mgr_get_value (lat_manager lat) field handle units data_source w of
        (w', Inr v) \<Rightarrow> (w', Inr v)
      | (w', Inl (k, m)) \<Rightarrow>
          if k = DataSourceException
          then (w', Inl (DataSourceException,
                  No_data_source_on_lattice data_source (Lattice_object (lat_id lat))))
          else if k = FieldException
          then (w', Inl (FieldException,
                  Lattice_does_not_have_field (Lattice_object (lat_id lat)) field))
          else (w', Inl (k, m)))"

definition set_value_lattice ::
  "(manager \<Rightarrow> string \<Rightarrow> 'v \<Rightarrow> string \<Rightarrow> string \<Rightarrow> string \<Rightarrow> 'w \<Rightarrow> 'w \<times> error option)
     \<Rightarrow> lattice \<Rightarrow> string \<Rightarrow> 'v \<Rightarrow> string \<Rightarrow> string \<Rightarrow> string \<Rightarrow> 'w \<Rightarrow> 'w \<times> error option" where
  "set_value_lattice mgr_set_value lat field v handle units data_source w =
     (case mgr_set_value (lat_manager lat) field v handle units data_source w of
        (w', None) \<Rightarrow> (w', None)
      | (w', Some (k, m)) \<Rightarrow>
          if k = DataSourceException
          then (w', Some (DataSourceException,
                  No_data_source_on_lattice data_source (Lattice_object (lat_id lat))))
          else if k = FieldException
          then (w', Some (FieldException,
                  Lattice_does_not_have_field (Lattice_object (lat_id lat)) field))
          else (w', Some (k, m)))"

subsection \<open>get_element_devices\<close>

text \<open>
  \<open>Element.get_device\<close> is not among the sources: it is the argument
  \<open>elem_get_device\<close>. The loop appends the device of each element, in order; a
  lookup that raises \<open>DataSourceException\<close> prints one line and the loop goes on; an
  error of another kind leaves the loop. The printed lines are returned beside the
  result.
\<close>

fun devices_of ::
  "(element \<Rightarrow> string \<Rightarrow> error + 'd) \<Rightarrow> string \<Rightarrow> element list \<Rightarrow> 'd list \<Rightarrow> message list
     \<Rightarrow> message list \<times> (error + 'd list)" where
  "devices_of elem_get_device field [] devices printed = (printed, Inr devices)"
| "devices_of elem_get_device field (e # es) devices printed =
     (case elem_get_device e field of
        Inr d \<Rightarrow> devices_of elem_get_device field es (devices @ [d]) printed
      | Inl (k, m) \<Rightarrow>
          if k = DataSourceException
          then devices_of elem_get_device field es devices
                 (printed @ [No_device_for_field_on_element field (Element_object (elem_id e))])
          else (printed, Inl (k, m)))"

definition get_element_devices ::
  "(element \<Rightarrow> string \<Rightarrow> error + 'd) \<Rightarrow> lattice \<Rightarrow> string option \<Rightarrow> string
     \<Rightarrow> message list \<times> (error + 'd list)" where
  "get_element_devices elem_get_device lat family field =
     (case get_elements lat family None of
        Inl err \<Rightarrow> ([], Inl err)
      | Inr elements \<Rightarrow> devices_of elem_get_device field elements [] [])"

text \<open>
  Modelled from the spec: \<open>Element.get_device\<close> lives in \<open>element.py\<close>, which is not
  among the sources. The lookup goes to the element's live data source, as that of
  \<open>EpicsElement.get_pv_name\<close> does. After the spec (sections 4.5 and 7), a data source
  that is not registered is a \<open>DataSourceException\<close> and a field that is not defined
  is a \<open>FieldException\<close>, each described again with the element.
\<close>

definition get_device_element :: "element \<Rightarrow> string \<Rightarrow> error + epics_device" where
  "get_device_element e field =
     (case (case data_sources (elem_manager e) LIVE of
              None \<Rightarrow> Inl (KeyError, Missing_key LIVE)
            | Some ds \<Rightarrow> ds field) of
        Inr d \<Rightarrow> Inr d
      | Inl (k, m) \<Rightarrow>
          if k = KeyError
          then Inl (DataSourceException,
                 No_data_source_for_field_on_element field (Element_object (elem_id e)))
          else if k = FieldException
          then Inl (FieldException, No_field_on_element field (Element_object (elem_id e)))
          else Inl (k, m))"

subsection \<open>set_element_values\<close>

text \<open>
  \<open>Element.set_value\<close> is not among the sources: it is the argument
  \<open>elem_set_value\<close>, which receives the call as a record of the receiver and the
  arguments passed. A keyword argument that the caller leaves out is \<open>None\<close>.
  \<open>set_element_values\<close> passes \<open>handle=pytac.SP\<close> and neither \<open>units\<close> nor
  \<open>data_source\<close>. A write that raises ends the loop.
\<close>

record 'v set_value_call =
  sv_element :: element
  sv_field :: string
  sv_value :: 'v
  sv_handle :: "string option"
  sv_units :: "string option"
  sv_data_source :: "string option"

fun set_each ::
  "('v set_value_call \<Rightarrow> 'w \<Rightarrow> 'w \<times> error option) \<Rightarrow> string \<Rightarrow> (element \<times> 'v) list \<Rightarrow> 'w
     \<Rightarrow> 'w \<times> error option" where
  "set_each elem_set_value field [] w = (w, None)"
| "set_each elem_set_value field ((e, v) # rest) w =
     (case elem_set_value \<lparr>sv_element = e, sv_field = field, sv_value = v,
                            sv_handle = Some SP, sv_units = None, sv_data_source = None\<rparr> w of
        (w', Some err) \<Rightarrow> (w', Some err)
      | (w', None) \<Rightarrow> set_each elem_set_value field rest w')"

definition set_element_values ::
  "('v set_value_call \<Rightarrow> 'w \<Rightarrow> 'w \<times> error option) \<Rightarrow> lattice \<Rightarrow> string option \<Rightarrow> string
     \<Rightarrow> 'v list \<Rightarrow> 'w \<Rightarrow> 'w \<times> error option" where
  "set_element_values elem_set_value lat family field values w =
     (case get_elements lat family None of
        Inl err \<Rightarrow> (w, Some err)
      | Inr elements \<Rightarrow>
          if length elements \<noteq> length values
          then (w, Some (IndexError, Number_of_elements_must_be_equal))
          else set_each elem_set_value field (zip elements values) w)"

subsection \<open>set_default_units and set_default_data_source\<close>

text \<open>
  The argument is a string or \<open>None\<close>. On \<open>ENG\<close> or \<open>PHYS\<close> the lattice's manager
  is assigned first, then \<open>self.get_elements()\<close> is called, then each element's
  manager is assigned. \<open>get_elements()\<close> without a family returns the list
  \<open>self._lattice\<close> itself, so the loop assigns to the lattice's own elements: the
  lattice afterwards holds the updated elements. When \<open>get_elements()\<close> raises, the
  assignment to the lattice's manager has already happened.
\<close>

definition set_default_units :: "lattice \<Rightarrow> string option \<Rightarrow> lattice \<times> error option" where
  "set_default_units lat default_units_arg =
     (if default_units_arg = Some ENG \<or> default_units_arg = Some PHYS then
        (let u = the default_units_arg;
             lat1 = lat\<lparr>lat_manager := (lat_manager lat)\<lparr>default_units := u\<rparr>\<rparr>
         in case get_elements lat1 None None of
              Inl err \<Rightarrow> (lat1, Some err)
            | Inr elems1 \<Rightarrow>
                (lat1\<lparr>elems := map (\<lambda>elem. elem\<lparr>elem_manager :=
                                    (elem_manager elem)\<lparr>default_units := u\<rparr>\<rparr>) elems1\<rparr>, None))
      else if default_units_arg \<noteq> None
      then (lat, Some (UnitsException, Is_not_a_unit_type (the default_units_arg) ENG PHYS))
      else (lat, None))"

definition set_default_data_source :: "lattice \<Rightarrow> string option \<Rightarrow> lattice \<times> error option" where
  "set_default_data_source lat default_data_source_arg =
     (if default_data_source_arg = Some LIVE \<or> default_data_source_arg = Some SIM then
        (let ds = the default_data_source_arg;
             lat1 = lat\<lparr>lat_manager := (lat_manager lat)\<lparr>default_data_source := ds\<rparr>\<rparr>
         in case get_elements lat1 None None of
              Inl err \<Rightarrow> (lat1, Some err)
            | Inr elems1 \<Rightarrow>
                (lat1\<lparr>elems := map (\<lambda>elem. elem\<lparr>elem_manager :=
                                    (elem_manager elem)\<lparr>default_data_source := ds\<rparr>\<rparr>) elems1\<rparr>, None))
      else if default_data_source_arg \<noteq> None
      then (lat, Some (DataSourceException,
                  Is_not_a_data_source (the default_data_source_arg) LIVE SIM))
      else (lat, None))"

definition get_default_units :: "lattice \<Rightarrow> string" where
  "get_default_units lat = default_units (lat_manager lat)"

definition get_default_data_source :: "lattice \<Rightarrow> string" where
  "get_default_data_source lat = default_data_source (lat_manager lat)"

section \<open>EpicsElement and EpicsLattice\<close>

text \<open>
  \<open>EpicsElement.get_pv_name\<close>: the lookup \<open>_data_sources[pytac.LIVE]\<close> raises
  \<open>KeyError\<close> when no live data source is set; \<open>get_device\<close> and the device's
  \<open>get_pv_name\<close> may raise too. A \<open>KeyError\<close> from anywhere in the expression
  becomes a \<open>DataSourceException\<close>, a \<open>FieldException\<close> is raised again with the
  element's own message, anything else passes through.
\<close>

definition get_pv_name_element :: "element \<Rightarrow> string \<Rightarrow> string \<Rightarrow> error + string" where
  "get_pv_name_element e field handle =
     (case (case data_sources (elem_manager e) LIVE of
              None \<Rightarrow> Inl (KeyError, Missing_key LIVE)
            | Some ds \<Rightarrow>
                (case ds field of
                   Inl err \<Rightarrow> Inl err
                 | Inr d \<Rightarrow> get_pv_name_device d handle)) of
        Inr pv \<Rightarrow> Inr pv
      | Inl (k, m) \<Rightarrow>
          if k = KeyError
          then Inl (DataSourceException,
                 No_data_source_for_field_on_element field (Element_object (elem_id e)))
          else if k = FieldException
          then Inl (FieldException, No_field_on_element field (Element_object (elem_id e)))
          else Inl (k, m))"

text \<open>The loop of \<open>get_pv_names\<close>, with the list built so far.\<close>

fun pv_names_of :: "string \<Rightarrow> string \<Rightarrow> element list \<Rightarrow> string list \<Rightarrow> error + string list" where
  "pv_names_of field handle [] pv_names = Inr pv_names"
| "pv_names_of field handle (e # es) pv_names =
     (case get_pv_name_element e field handle of
        Inl err \<Rightarrow> Inl err
      | Inr pv \<Rightarrow> pv_names_of field handle es (pv_names @ [pv]))"

definition get_pv_names :: "lattice \<Rightarrow> string option \<Rightarrow> string \<Rightarrow> string \<Rightarrow> error + string list" where
  "get_pv_names lat family field handle =
     (case get_elements lat family None of
        Inl err \<Rightarrow> Inl err
      | Inr elements \<Rightarrow> pv_names_of field handle elements [])"

text \<open>
  \<open>get_values\<close> returns the list that the control system's \<open>get\<close> gives for the
  list of names, or, when \<open>dtype\<close> is given, the array \<open>numpy.array\<close> makes of it.
  The batched \<open>get\<close> and \<open>numpy.array\<close> are the arguments \<open>cs_get_many\<close> and
  \<open>numpy_array\<close>.
\<close>

datatype ('v, 'a) value_seq = Values_list "'v list" | Values_array 'a

definition get_values ::
  "(string list \<Rightarrow> 'w \<Rightarrow> 'w \<times> (error + 'v list)) \<Rightarrow> ('v list \<Rightarrow> 't \<Rightarrow> error + 'a)
     \<Rightarrow> lattice \<Rightarrow> string option \<Rightarrow> string \<Rightarrow> string \<Rightarrow> 't option \<Rightarrow> 'w
     \<Rightarrow> 'w \<times> (error + ('v, 'a) value_seq)" where
  "get_values cs_get_many numpy_array lat family field handle dtype w =
     (case get_pv_names lat family field handle of
        Inl err \<Rightarrow> (w, Inl err)
      | Inr pv_names \<Rightarrow>
          (case cs_get_many pv_names w of
             (w', Inl err) \<Rightarrow> (w', Inl err)
           | (w', Inr vs) \<Rightarrow>
               (case dtype of
                  None \<Rightarrow> (w', Inr (Values_list vs))
                | Some t \<Rightarrow>
                    (case numpy_array vs t of
                       Inl err \<Rightarrow> (w', Inl err)
                     | Inr a \<Rightarrow> (w', Inr (Values_array a))))))"

section \<open>PvEnabler\<close>










section \<open>Call traces\<close>

text \<open>
  To count the calls a function issues to a collaborator, the collaborator is wrapped:
  \<open>traced f\<close> behaves as \<open>f\<close> on the world and appends the argument of each call to
  a log carried beside the world.
\<close>

definition traced :: "('c \<Rightarrow> 'w \<Rightarrow> 'w \<times> 'r) \<Rightarrow> 'c \<Rightarrow> 'c list \<times> 'w \<Rightarrow> ('c list \<times> 'w) \<times> 'r" where
  "traced f c lw = (case f c (snd lw) of (w', r) \<Rightarrow> ((fst lw @ [c], w'), r))"

text \<open>
  The call that \<open>set_element_values\<close> is to issue for a pair of an element and a
  value: the setpoint handle, no \<open>units\<close>, no \<open>data_source\<close>.
\<close>

definition sp_call :: "string \<Rightarrow> element \<times> 'v \<Rightarrow> 'v set_value_call" where
  "sp_call field ev = \<lparr>sv_element = fst ev, sv_field = field, sv_value = snd ev,
                       sv_handle = Some SP, sv_units = None, sv_data_source = None\<rparr>"

section \<open>A small ring\<close>

text \<open>
  Two beam position monitors in the family \<open>BPM\<close>, in cells 1 and 2, each with a live
  data source that has a device for the field \<open>x\<close> only; and stand-ins for the
  built-in \<open>float\<close> on the three strings used below.
\<close>

definition bpm_source :: "string \<Rightarrow> data_source" where
  "bpm_source prefix field =
     (if field = ''x''
      then Inr \<lparr>dev_name = prefix, rb_pv = Some (prefix @ '':X''), sp_pv = None\<rparr>
      else Inl (FieldException, Collaborator_message field))"

definition bpm :: "nat \<Rightarrow> string \<Rightarrow> int \<Rightarrow> element" where
  "bpm i prefix c =
     \<lparr>elem_id = i, families = {''BPM''}, cell = Some c,
      elem_manager = \<lparr>default_units = ENG, default_data_source = LIVE,
                      data_sources = [LIVE \<mapsto> bpm_source prefix]\<rparr>\<rparr>"

definition ring :: lattice where
  "ring = add_element
            (add_element
               (Lattice 0 ''ring'' \<lparr>default_units = ENG, default_data_source = LIVE,
                                    data_sources = Map.empty\<rparr>)
               (bpm 1 ''BPM1'' 1))
            (bpm 2 ''BPM2'' 2)"


definition unwired_bpm :: "nat \<Rightarrow> int \<Rightarrow> element" where
  "unwired_bpm i c =
     \<lparr>elem_id = i, families = {''BPM''}, cell = Some c,
      elem_manager = \<lparr>default_units = ENG, default_data_source = LIVE,
                      data_sources = Map.empty\<rparr>\<rparr>"



section \<open>Properties of get_elements\<close>

lemma append_family_filter:
  "append_family family es acc = acc @ filter (in_families family) es"
  by (induction es arbitrary: acc) simp_all

lemma append_family_None: "append_family None es acc = acc"
  by (induction es arbitrary: acc) simp_all

lemma get_elements_all_nonempty:
  "elems lat \<noteq> [] \<Longrightarrow> get_elements lat None None = Inr (elems lat)"
  by (simp add: get_elements_def append_family_None)

text \<open>
  C1. With a family \<open>F\<close> given, \<open>get_elements\<close> selects the elements whose
  \<open>families\<close> contain \<open>F\<close>, in lattice order. An empty selection is the
  \<open>ValueError\<close> of the family check. Otherwise, with no cell the selection is
  returned; with a cell \<open>C\<close> it is restricted to the elements in \<open>C\<close>, and an empty
  restriction is the second \<open>ValueError\<close>, that of the cell check, which differs from
  the first and is reached only when the family check has passed.
\<close>

theorem get_elements_family_then_cell:
  "get_elements lat (Some F) C =
     (let selection = filter (\<lambda>e. F \<in> families e) (elems lat)
      in if selection = [] then Inl (ValueError, No_elements_in_family (Some F))
         else case C of
                None \<Rightarrow> Inr selection
              | Some c \<Rightarrow>
                  (let restricted = filter (\<lambda>e. cell e = Some c) selection
                   in if restricted = [] then Inl (ValueError, No_elements_in_cell (Some c))
                      else Inr restricted))
   \<and> (ValueError, No_elements_in_family (Some F)) \<noteq> (ValueError, No_elements_in_cell C)"
proof -
  have sel: "append_family (Some F) (elems lat) [] = filter (\<lambda>e. F \<in> families e) (elems lat)"
  proof -
    have "in_families (Some F) = (\<lambda>e. F \<in> families e)"
      by (rule ext) simp
    then show ?thesis
      by (simp add: append_family_filter)
  qed
  show ?thesis
    by (cases C) (simp_all add: get_elements_def sel Let_def)
qed

text \<open>
  C9. On the lattice with no elements, \<open>get_elements()\<close> without a family does not
  return the empty list of all elements: the list is empty, so the emptiness check
  written for a requested family raises its \<open>ValueError\<close>.
\<close>

theorem get_elements_no_family_empty_lattice:
  "get_elements (Lattice i n m) None None = Inl (ValueError, No_elements_in_family None)"
  by (simp add: get_elements_def Lattice_def)

section \<open>Properties of set_element_values\<close>

lemma set_each_traced_Cons:
  "set_each (traced sv) field ((e, v) # evs) (log, w) =
     (case sv (sp_call field (e, v)) w of
        (w', None) \<Rightarrow> set_each (traced sv) field evs (log @ [sp_call field (e, v)], w')
      | (w', Some err) \<Rightarrow> ((log @ [sp_call field (e, v)], w'), Some err))"
  by (simp add: traced_def sp_call_def split: prod.splits option.splits)

lemma set_each_traced_prefix:
  "\<exists>n \<le> length evs.
     fst (fst (set_each (traced sv) field evs (log, w))) = log @ take n (map (sp_call field) evs)
     \<and> (snd (set_each (traced sv) field evs (log, w)) = None \<longrightarrow> n = length evs)"
proof (induction evs arbitrary: log w)
  case Nil
  then show ?case by simp
next
  case (Cons ev evs)
  obtain e v where ev: "ev = (e, v)" by (cases ev)
  obtain w' r where step: "sv (sp_call field (e, v)) w = (w', r)"
    by (cases "sv (sp_call field (e, v)) w")
  show ?case
  proof (cases r)
    case None
    obtain n where ih: "n \<le> length evs \<and>
      fst (fst (set_each (traced sv) field evs (log @ [sp_call field (e, v)], w')))
         = (log @ [sp_call field (e, v)]) @ take n (map (sp_call field) evs) \<and>
      (snd (set_each (traced sv) field evs (log @ [sp_call field (e, v)], w')) = None
         \<longrightarrow> n = length evs)"
      using Cons.IH [of "log @ [sp_call field (e, v)]" w'] ..
    note n = ih [THEN conjunct1] ih [THEN conjunct2, THEN conjunct1]
      ih [THEN conjunct2, THEN conjunct2]
    have run: "set_each (traced sv) field (ev # evs) (log, w)
                 = set_each (traced sv) field evs (log @ [sp_call field (e, v)], w')"
      by (simp only: ev set_each_traced_Cons step None prod.case option.case)
    have a: "Suc n \<le> length (ev # evs)" using n(1) by simp
    have b: "fst (fst (set_each (traced sv) field (ev # evs) (log, w)))
        = log @ take (Suc n) (map (sp_call field) (ev # evs))"
      using n(2) by (simp only: run) (simp add: ev)
    have c: "snd (set_each (traced sv) field (ev # evs) (log, w)) = None
        \<longrightarrow> Suc n = length (ev # evs)"
      using n(3) by (simp only: run) simp
    show ?thesis
      by (rule exI [of _ "Suc n"]) (intro conjI a b c)
  next
    case (Some err)
    have run: "set_each (traced sv) field (ev # evs) (log, w)
                 = ((log @ [sp_call field (e, v)], w'), Some err)"
      by (simp only: ev set_each_traced_Cons step Some prod.case option.case)
    have a: "Suc 0 \<le> length (ev # evs)" by simp
    have b: "fst (fst (set_each (traced sv) field (ev # evs) (log, w)))
        = log @ take (Suc 0) (map (sp_call field) (ev # evs))"
      by (simp only: run) (simp add: ev)
    have c: "snd (set_each (traced sv) field (ev # evs) (log, w)) = None
        \<longrightarrow> Suc 0 = length (ev # evs)"
      by (simp only: run) simp
    show ?thesis
      by (rule exI [of _ "Suc 0"]) (intro conjI a b c)
  qed
qed

lemma set_each_traced_all:
  "\<forall>c w. snd (sv c w) = None \<Longrightarrow>
     fst (fst (set_each (traced sv) field evs (log, w))) = log @ map (sp_call field) evs
     \<and> snd (set_each (traced sv) field evs (log, w)) = None"
proof (induction evs arbitrary: log w)
  case Nil
  then show ?case by simp
next
  case (Cons ev evs)
  obtain e v where ev: "ev = (e, v)" by (cases ev)
  obtain w' r where step: "sv (sp_call field (e, v)) w = (w', r)"
    by (cases "sv (sp_call field (e, v)) w")
  have "snd (sv (sp_call field (e, v)) w) = None" using Cons.prems by blast
  then have r: "r = None" by (simp add: step)
  have run: "set_each (traced sv) field (ev # evs) (log, w)
               = set_each (traced sv) field evs (log @ [sp_call field (e, v)], w')"
    by (simp only: ev set_each_traced_Cons step r prod.case option.case)
  show ?case
    using Cons.IH [OF Cons.prems, of "log @ [sp_call field (e, v)]" w']
    by (simp only: run) (simp add: ev)
qed

lemma set_element_values_no_family:
  "get_elements lat family None = Inl err \<Longrightarrow>
     set_element_values elem_set_value lat family field vs w = (w, Some err)"
  by (simp add: set_element_values_def)

text \<open>
  C2. When \<open>get_elements\<close> raises, so does \<open>set_element_values\<close>, with no write
  issued. Let \<open>get_elements\<close> give the \<open>k\<close> elements \<open>es\<close> of the family. If the
  number of values differs from \<open>k\<close>, \<open>set_element_values\<close> raises the
  \<open>IndexError\<close> with no write issued: the log of calls and the world are as before.
  If the numbers agree, the writes issued are an initial part of the calls
  \<open>sp_call field (es ! i, vs ! i)\<close>, in order, and all \<open>k\<close> of them when no error is
  returned; when no write raises, the log grows by exactly these \<open>k\<close> calls, the
  \<open>i\<close>-th being the write of the \<open>i\<close>-th value to the \<open>i\<close>-th element with the
  handle \<open>SP\<close> and neither \<open>units\<close> nor \<open>data_source\<close>.
\<close>

theorem set_element_values_writes:
  "(get_elements lat family None = Inl err \<longrightarrow>
      set_element_values (traced sv) lat family field vs (log, w) = ((log, w), Some err))
   \<and> (get_elements lat family None = Inr es \<and> length vs \<noteq> length es \<longrightarrow>
        set_element_values (traced sv) lat family field vs (log, w)
          = ((log, w), Some (IndexError, Number_of_elements_must_be_equal)))
   \<and> (get_elements lat family None = Inr es \<and> length vs = length es \<longrightarrow>
        (\<exists>n \<le> length es.
           fst (fst (set_element_values (traced sv) lat family field vs (log, w)))
             = log @ take n (map (sp_call field) (zip es vs))
           \<and> (snd (set_element_values (traced sv) lat family field vs (log, w)) = None
                \<longrightarrow> n = length es))
      \<and> ((\<forall>c w. snd (sv c w) = None) \<longrightarrow>
           fst (fst (set_element_values (traced sv) lat family field vs (log, w)))
             = log @ map (sp_call field) (zip es vs)
         \<and> snd (set_element_values (traced sv) lat family field vs (log, w)) = None
         \<and> length (map (sp_call field) (zip es vs)) = length es
         \<and> (\<forall>i < length es. map (sp_call field) (zip es vs) ! i
                = \<lparr>sv_element = es ! i, sv_field = field, sv_value = vs ! i,
                   sv_handle = Some SP, sv_units = None, sv_data_source = None\<rparr>)))"
proof (intro conjI impI)
  assume "get_elements lat family None = Inl err"
  then show "set_element_values (traced sv) lat family field vs (log, w) = ((log, w), Some err)"
    by (rule set_element_values_no_family)
next
  assume "get_elements lat family None = Inr es \<and> length vs \<noteq> length es"
  then show "set_element_values (traced sv) lat family field vs (log, w)
              = ((log, w), Some (IndexError, Number_of_elements_must_be_equal))"
    by (auto simp add: set_element_values_def)
next
  assume h: "get_elements lat family None = Inr es \<and> length vs = length es"
  then have len: "length vs = length es" by simp
  have run: "set_element_values (traced sv) lat family field vs (log, w)
               = set_each (traced sv) field (zip es vs) (log, w)"
    using h by (simp add: set_element_values_def)
  from set_each_traced_prefix [of "zip es vs" sv field log w]
  show "\<exists>n \<le> length es.
               fst (fst (set_element_values (traced sv) lat family field vs (log, w)))
                 = log @ take n (map (sp_call field) (zip es vs))
               \<and> (snd (set_element_values (traced sv) lat family field vs (log, w)) = None
                    \<longrightarrow> n = length es)"
    by (simp add: run len)
  assume ok: "\<forall>c w. snd (sv c w) = None"
  from set_each_traced_all [OF ok, of field "zip es vs" log w]
  show "fst (fst (set_element_values (traced sv) lat family field vs (log, w)))
                 = log @ map (sp_call field) (zip es vs)"
    and "snd (set_element_values (traced sv) lat family field vs (log, w)) = None"
    by (simp_all add: run)
  show "length (map (sp_call field) (zip es vs)) = length es"
    by (simp add: len)
  show "\<forall>i < length es. map (sp_call field) (zip es vs) ! i
                    = \<lparr>sv_element = es ! i, sv_field = field, sv_value = vs ! i,
                       sv_handle = Some SP, sv_units = None, sv_data_source = None\<rparr>"
    by (simp add: len sp_call_def)
qed

text \<open>
  On the small ring: one value for two monitors is refused, two values are written, and
  a family without elements is refused by \<open>get_elements\<close>.
\<close>

theorem set_element_values_writes_witness:
  "get_elements ring (Some ''BPM'') None = Inr [bpm 1 ''BPM1'' 1, bpm 2 ''BPM2'' 2]
   \<and> set_element_values (traced (\<lambda>c w. (w, None))) ring (Some ''BPM'') ''x'' [4::int] ([], ())
       = (([], ()), Some (IndexError, Number_of_elements_must_be_equal))
   \<and> fst (fst (set_element_values (traced (\<lambda>c w. (w, None))) ring (Some ''BPM'') ''x''
                  [4::int, 5] ([], ())))
       = [\<lparr>sv_element = bpm 1 ''BPM1'' 1, sv_field = ''x'', sv_value = 4,
           sv_handle = Some SP, sv_units = None, sv_data_source = None\<rparr>,
          \<lparr>sv_element = bpm 2 ''BPM2'' 2, sv_field = ''x'', sv_value = 5,
           sv_handle = Some SP, sv_units = None, sv_data_source = None\<rparr>]
   \<and> get_elements ring (Some ''QUAD'') None = Inl (ValueError, No_elements_in_family (Some ''QUAD''))
   \<and> set_element_values (traced (\<lambda>c w. (w, None))) ring (Some ''QUAD'') ''x'' [4::int] ([], ())
       = (([], ()), Some (ValueError, No_elements_in_family (Some ''QUAD'')))"
proof -
  have ge: "get_elements ring (Some ''BPM'') None = Inr [bpm 1 ''BPM1'' 1, bpm 2 ''BPM2'' 2]"
    by (simp add: get_elements_def ring_def add_element_def Lattice_def bpm_def)
  have no: "get_elements ring (Some ''QUAD'') None
              = Inl (ValueError, No_elements_in_family (Some ''QUAD''))"
    by (simp add: get_elements_def ring_def add_element_def Lattice_def bpm_def)
  show ?thesis
    using ge no
      set_element_values_writes [where lat = ring and family = "Some ''BPM''"
        and es = "[bpm 1 ''BPM1'' 1, bpm 2 ''BPM2'' 2]" and vs = "[4::int]"
        and sv = "\<lambda>c w. (w, None)" and field = "''x''" and log = "[]" and w = "()"]
      set_element_values_writes [where lat = ring and family = "Some ''BPM''"
        and es = "[bpm 1 ''BPM1'' 1, bpm 2 ''BPM2'' 2]" and vs = "[4::int, 5]"
        and sv = "\<lambda>c w. (w, None)" and field = "''x''" and log = "[]" and w = "()"]
      set_element_values_writes [where lat = ring and family = "Some ''QUAD''"
        and err = "(ValueError, No_elements_in_family (Some ''QUAD''))" and vs = "[4::int]"
        and sv = "\<lambda>c w. (w, None)" and field = "''x''" and log = "[]" and w = "()"]
    by (simp add: sp_call_def)
qed

section \<open>Properties of set_default_units and set_default_data_source\<close>

text \<open>
  C3. On the lattice with no elements, \<open>set_default_units(ENG)\<close> does not return
  normally: it assigns the default of the lattice's manager, then
  \<open>self.get_elements()\<close> raises the \<open>ValueError\<close> of the family check, which leaves
  the call with the lattice's default already changed. \<open>set_default_data_source\<close>
  with \<open>LIVE\<close> does the same.
\<close>

theorem set_default_on_empty_lattice:
  "set_default_units (Lattice i n m) (Some ENG)
     = (\<lparr>lat_id = i, name = n, elems = [], lat_manager = m\<lparr>default_units := ENG\<rparr>\<rparr>,
        Some (ValueError, No_elements_in_family None))
   \<and> set_default_data_source (Lattice i n m) (Some LIVE)
     = (\<lparr>lat_id = i, name = n, elems = [], lat_manager = m\<lparr>default_data_source := LIVE\<rparr>\<rparr>,
        Some (ValueError, No_elements_in_family None))"
  by (simp add: set_default_units_def set_default_data_source_def get_elements_def Lattice_def)

text \<open>
  On a lattice with at least one element the new default reaches the lattice's manager
  and every element's manager; a string that is not one of the two constants is
  refused with the lattice unchanged; \<open>None\<close> changes nothing.
\<close>

lemma set_default_units_propagates:
  assumes "elems lat \<noteq> []" and "u = ENG \<or> u = PHYS"
  shows "set_default_units lat (Some u)
     = (lat\<lparr>lat_manager := (lat_manager lat)\<lparr>default_units := u\<rparr>,
            elems := map (\<lambda>elem. elem\<lparr>elem_manager := (elem_manager elem)\<lparr>default_units := u\<rparr>\<rparr>)
                       (elems lat)\<rparr>, None)"
proof -
  let ?lat1 = "lat\<lparr>lat_manager := (lat_manager lat)\<lparr>default_units := u\<rparr>\<rparr>"
  have "elems ?lat1 \<noteq> []" using assms(1) by simp
  then have "get_elements ?lat1 None None = Inr (elems lat)"
    by (simp add: get_elements_all_nonempty)
  then show ?thesis
    using assms(2) by (auto simp add: set_default_units_def Let_def)
qed

lemma set_default_units_rejects:
  "u \<noteq> ENG \<Longrightarrow> u \<noteq> PHYS \<Longrightarrow>
     set_default_units lat (Some u) = (lat, Some (UnitsException, Is_not_a_unit_type u ENG PHYS))"
  by (simp add: set_default_units_def)

lemma set_default_units_None: "set_default_units lat None = (lat, None)"
  by (simp add: set_default_units_def)

lemma set_default_data_source_propagates:
  assumes "elems lat \<noteq> []" and "d = LIVE \<or> d = SIM"
  shows "set_default_data_source lat (Some d)
     = (lat\<lparr>lat_manager := (lat_manager lat)\<lparr>default_data_source := d\<rparr>,
            elems := map (\<lambda>elem. elem\<lparr>elem_manager :=
                              (elem_manager elem)\<lparr>default_data_source := d\<rparr>\<rparr>)
                       (elems lat)\<rparr>, None)"
proof -
  let ?lat1 = "lat\<lparr>lat_manager := (lat_manager lat)\<lparr>default_data_source := d\<rparr>\<rparr>"
  have "elems ?lat1 \<noteq> []" using assms(1) by simp
  then have "get_elements ?lat1 None None = Inr (elems lat)"
    by (simp add: get_elements_all_nonempty)
  then show ?thesis
    using assms(2) by (auto simp add: set_default_data_source_def Let_def)
qed

lemma set_default_data_source_rejects:
  "d \<noteq> LIVE \<Longrightarrow> d \<noteq> SIM \<Longrightarrow>
     set_default_data_source lat (Some d)
       = (lat, Some (DataSourceException, Is_not_a_data_source d LIVE SIM))"
  by (simp add: set_default_data_source_def)

lemma set_default_data_source_None: "set_default_data_source lat None = (lat, None)"
  by (simp add: set_default_data_source_def)

section \<open>Properties of PvEnabler\<close>









section \<open>Properties of EpicsDevice\<close>

lemma RB_neq_SP: "RB \<noteq> SP"
  by (simp add: RB_def SP_def)

text \<open>
  C5. Construction with neither channel raises \<open>DataSourceException\<close>. A device with
  only a setpoint channel raises \<open>HandleException\<close> on \<open>get_value(RB)\<close> and
  \<open>get_pv_name(RB)\<close>. A device with only a readback channel raises
  \<open>HandleException\<close> on \<open>set_value(v)\<close> for every \<open>v\<close>, on \<open>get_value(SP)\<close> and
  on \<open>get_pv_name(SP)\<close>. In each case the world is left as it was.
\<close>

theorem EpicsDevice_channel_presence:
  "EpicsDevice n None None = Inl (DataSourceException, At_least_one_PV_is_required RB SP)
   \<and> EpicsDevice n None (Some sp) = Inr \<lparr>dev_name = n, rb_pv = None, sp_pv = Some sp\<rparr>
   \<and> get_value_device cs_get \<lparr>dev_name = n, rb_pv = None, sp_pv = Some sp\<rparr> RB w
       = (w, Inl (HandleException, Device_has_no_PV n RB))
   \<and> get_pv_name_device \<lparr>dev_name = n, rb_pv = None, sp_pv = Some sp\<rparr> RB
       = Inl (HandleException, Device_has_no_PV n RB)
   \<and> EpicsDevice n (Some rb) None = Inr \<lparr>dev_name = n, rb_pv = Some rb, sp_pv = None\<rparr>
   \<and> set_value_device cs_put \<lparr>dev_name = n, rb_pv = Some rb, sp_pv = None\<rparr> v w
       = (w, Some (HandleException, Device_has_no_setpoint_PV n))
   \<and> get_value_device cs_get \<lparr>dev_name = n, rb_pv = Some rb, sp_pv = None\<rparr> SP w
       = (w, Inl (HandleException, Device_has_no_PV n SP))
   \<and> get_pv_name_device \<lparr>dev_name = n, rb_pv = Some rb, sp_pv = None\<rparr> SP
       = Inl (HandleException, Device_has_no_PV n SP)"
  by (simp add: EpicsDevice_def get_value_device_def get_pv_name_device_def
      set_value_device_def RB_neq_SP RB_neq_SP [symmetric])

text \<open>
  C10. The constructor raises exactly when both channel arguments are \<open>None\<close>. When
  each channel is \<open>None\<close> or the empty string and not both are \<open>None\<close>, the
  construction succeeds, and on the device \<open>get_value(h)\<close> and \<open>get_pv_name(h)\<close>
  raise \<open>HandleException\<close> for every handle \<open>h\<close>.
\<close>

theorem falsy_channel_device:
  assumes "\<not> truthy rb" and "\<not> truthy sp" and "\<not> (rb = None \<and> sp = None)"
  shows "((\<exists>err. EpicsDevice n' rb' sp' = Inl err) = (rb' = None \<and> sp' = None))
     \<and> EpicsDevice n rb sp = Inr \<lparr>dev_name = n, rb_pv = rb, sp_pv = sp\<rparr>
     \<and> get_value_device cs_get \<lparr>dev_name = n, rb_pv = rb, sp_pv = sp\<rparr> h w
         = (w, Inl (HandleException, Device_has_no_PV n h))
     \<and> get_pv_name_device \<lparr>dev_name = n, rb_pv = rb, sp_pv = sp\<rparr> h
         = Inl (HandleException, Device_has_no_PV n h)"
  using assms
  by (auto simp add: EpicsDevice_def get_value_device_def get_pv_name_device_def)

text \<open>The device built with \<open>rb_pv=''\<close> and no setpoint channel.\<close>

theorem falsy_channel_device_witness:
  "EpicsDevice ''d'' (Some []) None = Inr \<lparr>dev_name = ''d'', rb_pv = Some [], sp_pv = None\<rparr>
   \<and> get_value_device (\<lambda>pv w. (w, Inr (0::int))) \<lparr>dev_name = ''d'', rb_pv = Some [], sp_pv = None\<rparr>
         RB () = ((), Inl (HandleException, Device_has_no_PV ''d'' RB))
   \<and> get_pv_name_device \<lparr>dev_name = ''d'', rb_pv = Some [], sp_pv = None\<rparr> RB
         = Inl (HandleException, Device_has_no_PV ''d'' RB)"
  using falsy_channel_device [where rb = "Some []" and sp = None and n = "''d''"
      and cs_get = "\<lambda>pv w. (w, Inr (0::int))" and h = RB and w = "()"]
  by simp

section \<open>Properties of EpicsLattice.get_values\<close>

lemma pv_names_of_all:
  "map (\<lambda>e. get_pv_name_element e field handle) es = map Inr names \<Longrightarrow>
     pv_names_of field handle es acc = Inr (acc @ names)"
proof (induction es arbitrary: acc names)
  case Nil
  then show ?case by simp
next
  case (Cons e es)
  then obtain n ns where names: "names = n # ns" by (cases names) auto
  have hd: "get_pv_name_element e field handle = Inr n"
    and tl: "map (\<lambda>e. get_pv_name_element e field handle) es = map Inr ns"
    using Cons.prems by (simp_all add: names)
  show ?case
    using Cons.IH [OF tl, of "acc @ [n]"] by (simp add: hd names)
qed

lemma get_values_no_names:
  "get_pv_names lat family field handle = Inl err \<Longrightarrow>
     get_values cs_get_many numpy_array lat family field handle dtype w = (w, Inl err)"
  by (simp add: get_values_def)

lemma get_values_traced_one_call:
  "get_pv_names lat family field handle = Inr pv_names \<Longrightarrow>
     fst (get_values (traced cs_get_many) numpy_array lat family field handle dtype (log, w))
       = (log @ [pv_names], fst (cs_get_many pv_names w))"
  by (simp add: get_values_def traced_def split: prod.splits sum.splits option.splits)

text \<open>
  C6. When the channel names cannot be resolved, \<open>get_values\<close> raises the error of
  \<open>get_pv_names\<close> and issues no \<open>get\<close>. When they are resolved, it issues one call
  of the control system's \<open>get\<close>, on the whole list of names, whatever the size of
  the family. Let \<open>get_elements\<close> give the \<open>k\<close> elements \<open>es\<close> of the family, let
  every element resolve a channel name for the field and handle, \<open>pv_names\<close> being
  these names in order, and let the batched \<open>get\<close> be order-preserving: it answers a
  list of names with the list of the channels' values. Then \<open>get_pv_names\<close> returns
  the \<open>k\<close> names, the \<open>i\<close>-th being that of the \<open>i\<close>-th element, and
  \<open>get_values\<close> returns the \<open>k\<close> values, the \<open>i\<close>-th being the value of the
  \<open>i\<close>-th name; with a \<open>dtype\<close> the result is what \<open>numpy.array\<close> makes of that
  list.
\<close>

theorem get_values_one_batched_get:
  "(get_pv_names lat family field handle = Inl err \<longrightarrow>
      get_values (traced cs_get_many) numpy_array lat family field handle dtype (log, w)
        = ((log, w), Inl err))
   \<and> (get_pv_names lat family field handle = Inr pv_names \<longrightarrow>
        fst (get_values (traced cs_get_many) numpy_array lat family field handle dtype (log, w))
          = (log @ [pv_names], fst (cs_get_many pv_names w)))
   \<and> (get_elements lat family None = Inr es
        \<and> map (\<lambda>e. get_pv_name_element e field handle) es = map Inr pv_names
        \<and> (\<forall>ns w. snd (cs_get_many ns w) = Inr (map (channel_value w) ns)) \<longrightarrow>
        get_pv_names lat family field handle = Inr pv_names
        \<and> length pv_names = length es
        \<and> (\<forall>i < length es. get_pv_name_element (es ! i) field handle = Inr (pv_names ! i))
        \<and> get_values (traced cs_get_many) numpy_array lat family field handle None (log, w)
            = ((log @ [pv_names], fst (cs_get_many pv_names w)),
               Inr (Values_list (map (channel_value w) pv_names)))
        \<and> length (map (channel_value w) pv_names) = length es
        \<and> (\<forall>i < length es. map (channel_value w) pv_names ! i = channel_value w (pv_names ! i))
        \<and> get_values (traced cs_get_many) numpy_array lat family field handle (Some t) (log, w)
            = ((log @ [pv_names], fst (cs_get_many pv_names w)),
               case numpy_array (map (channel_value w) pv_names) t of
                 Inl err \<Rightarrow> Inl err
               | Inr a \<Rightarrow> Inr (Values_array a)))"
proof (intro conjI)
  show "get_pv_names lat family field handle = Inl err \<longrightarrow>
      get_values (traced cs_get_many) numpy_array lat family field handle dtype (log, w)
        = ((log, w), Inl err)"
    by (simp add: get_values_no_names)
  show "get_pv_names lat family field handle = Inr pv_names \<longrightarrow>
        fst (get_values (traced cs_get_many) numpy_array lat family field handle dtype (log, w))
          = (log @ [pv_names], fst (cs_get_many pv_names w))"
    by (simp add: get_values_traced_one_call)
  show "get_elements lat family None = Inr es
        \<and> map (\<lambda>e. get_pv_name_element e field handle) es = map Inr pv_names
        \<and> (\<forall>ns w. snd (cs_get_many ns w) = Inr (map (channel_value w) ns)) \<longrightarrow>
        get_pv_names lat family field handle = Inr pv_names
        \<and> length pv_names = length es
        \<and> (\<forall>i < length es. get_pv_name_element (es ! i) field handle = Inr (pv_names ! i))
        \<and> get_values (traced cs_get_many) numpy_array lat family field handle None (log, w)
            = ((log @ [pv_names], fst (cs_get_many pv_names w)),
               Inr (Values_list (map (channel_value w) pv_names)))
        \<and> length (map (channel_value w) pv_names) = length es
        \<and> (\<forall>i < length es. map (channel_value w) pv_names ! i = channel_value w (pv_names ! i))
        \<and> get_values (traced cs_get_many) numpy_array lat family field handle (Some t) (log, w)
            = ((log @ [pv_names], fst (cs_get_many pv_names w)),
               case numpy_array (map (channel_value w) pv_names) t of
                 Inl err \<Rightarrow> Inl err
               | Inr a \<Rightarrow> Inr (Values_array a))"
  proof
    assume h: "get_elements lat family None = Inr es
        \<and> map (\<lambda>e. get_pv_name_element e field handle) es = map Inr pv_names
        \<and> (\<forall>ns w. snd (cs_get_many ns w) = Inr (map (channel_value w) ns))"
    then have ge: "get_elements lat family None = Inr es"
      and nm: "map (\<lambda>e. get_pv_name_element e field handle) es = map Inr pv_names"
      and op: "\<forall>ns w. snd (cs_get_many ns w) = Inr (map (channel_value w) ns)"
      by simp_all
    have names: "get_pv_names lat family field handle = Inr pv_names"
      using pv_names_of_all [OF nm, of "[]"] by (simp add: get_pv_names_def ge)
    have len: "length pv_names = length es"
      using arg_cong [OF nm, of length] by simp
    have each: "\<forall>i < length es. get_pv_name_element (es ! i) field handle = Inr (pv_names ! i)"
    proof (intro allI impI)
      fix i assume i: "i < length es"
      have "map (\<lambda>e. get_pv_name_element e field handle) es ! i = map Inr pv_names ! i"
        by (simp only: nm)
      then show "get_pv_name_element (es ! i) field handle = Inr (pv_names ! i)"
        using i len by simp
    qed
    obtain w' r where call: "cs_get_many pv_names w = (w', r)"
      by (cases "cs_get_many pv_names w")
    have "snd (cs_get_many pv_names w) = Inr (map (channel_value w) pv_names)"
      using op by blast
    then have r: "r = Inr (map (channel_value w) pv_names)"
      by (simp add: call)
    have tr: "traced cs_get_many pv_names (log, w)
                = ((log @ [pv_names], w'), Inr (map (channel_value w) pv_names))"
      by (simp add: traced_def call r)
    have plain: "get_values (traced cs_get_many) numpy_array lat family field handle None (log, w)
             = ((log @ [pv_names], fst (cs_get_many pv_names w)),
                Inr (Values_list (map (channel_value w) pv_names)))"
      by (simp add: get_values_def names tr call)
    have coerced: "get_values (traced cs_get_many) numpy_array lat family field handle (Some t) (log, w)
             = ((log @ [pv_names], fst (cs_get_many pv_names w)),
                case numpy_array (map (channel_value w) pv_names) t of
                  Inl err \<Rightarrow> Inl err
                | Inr a \<Rightarrow> Inr (Values_array a))"
      by (simp add: get_values_def names tr call split: sum.splits)
    show "get_pv_names lat family field handle = Inr pv_names
        \<and> length pv_names = length es
        \<and> (\<forall>i < length es. get_pv_name_element (es ! i) field handle = Inr (pv_names ! i))
        \<and> get_values (traced cs_get_many) numpy_array lat family field handle None (log, w)
            = ((log @ [pv_names], fst (cs_get_many pv_names w)),
               Inr (Values_list (map (channel_value w) pv_names)))
        \<and> length (map (channel_value w) pv_names) = length es
        \<and> (\<forall>i < length es. map (channel_value w) pv_names ! i = channel_value w (pv_names ! i))
        \<and> get_values (traced cs_get_many) numpy_array lat family field handle (Some t) (log, w)
            = ((log @ [pv_names], fst (cs_get_many pv_names w)),
               case numpy_array (map (channel_value w) pv_names) t of
                 Inl err \<Rightarrow> Inl err
               | Inr a \<Rightarrow> Inr (Values_array a))"
      using names len each plain coerced by (simp add: len)
  qed
qed

text \<open>
  On the small ring, with a world that maps each channel to its value; the field \<open>y\<close>,
  which no monitor has, is refused before any \<open>get\<close>.
\<close>

theorem get_values_one_batched_get_witness:
  "get_pv_names ring (Some ''BPM'') ''x'' RB = Inr [''BPM1:X'', ''BPM2:X'']
   \<and> get_values (traced (\<lambda>ns w. (w, Inr (map w ns)))) (\<lambda>vs t. Inr vs) ring (Some ''BPM'') ''x'' RB
        (None :: unit option) ([], \<lambda>pv. if pv = ''BPM1:X'' then 1 else (2::int))
     = (([[''BPM1:X'', ''BPM2:X'']], \<lambda>pv. if pv = ''BPM1:X'' then 1 else 2),
        Inr (Values_list [1, 2]))
   \<and> get_pv_names ring (Some ''BPM'') ''y'' RB
     = Inl (FieldException, No_field_on_element ''y'' (Element_object 1))
   \<and> get_values (traced (\<lambda>ns w. (w, Inr (map w ns)))) (\<lambda>vs t. Inr vs) ring (Some ''BPM'') ''y'' RB
        (None :: unit option) ([], \<lambda>pv. if pv = ''BPM1:X'' then 1 else (2::int))
     = (([], \<lambda>pv. if pv = ''BPM1:X'' then 1 else 2),
        Inl (FieldException, No_field_on_element ''y'' (Element_object 1)))"
proof -
  have ge: "get_elements ring (Some ''BPM'') None = Inr [bpm 1 ''BPM1'' 1, bpm 2 ''BPM2'' 2]"
    by (simp add: get_elements_def ring_def add_element_def Lattice_def bpm_def)
  have nm: "map (\<lambda>e. get_pv_name_element e ''x'' RB) [bpm 1 ''BPM1'' 1, bpm 2 ''BPM2'' 2]
              = map Inr [''BPM1:X'', ''BPM2:X'']"
    by (simp add: get_pv_name_element_def bpm_def bpm_source_def get_pv_name_device_def)
  have bad: "get_pv_names ring (Some ''BPM'') ''y'' RB
     = Inl (FieldException, No_field_on_element ''y'' (Element_object 1))"
    by (simp add: get_pv_names_def ge) (simp add: get_pv_name_element_def bpm_def bpm_source_def)
  let ?g = "\<lambda>(ns::string list) (w::string \<Rightarrow> int). (w, Inr (map w ns) :: error + int list)"
  have op: "\<forall>ns w. snd (?g ns w) = Inr (map ((\<lambda>w. w) w) ns)"
    by simp
  show ?thesis
    using ge nm op bad
      get_values_one_batched_get [where lat = ring and family = "Some ''BPM''" and field = "''x''"
        and handle = RB and es = "[bpm 1 ''BPM1'' 1, bpm 2 ''BPM2'' 2]"
        and pv_names = "[''BPM1:X'', ''BPM2:X'']" and cs_get_many = ?g
        and channel_value = "\<lambda>w. w" and numpy_array = "\<lambda>vs t. Inr vs"
        and log = "[]" and w = "\<lambda>pv. if pv = ''BPM1:X'' then 1 else (2::int)" and t = "()"]
      get_values_one_batched_get [where lat = ring and family = "Some ''BPM''" and field = "''y''"
        and handle = RB and err = "(FieldException, No_field_on_element ''y'' (Element_object 1))"
        and cs_get_many = ?g and numpy_array = "\<lambda>vs t. Inr vs" and dtype = "None :: unit option"
        and log = "[]" and w = "\<lambda>pv. if pv = ''BPM1:X'' then 1 else (2::int)"]
    by simp
qed

section \<open>Properties of Lattice.get_value and Lattice.set_value\<close>

text \<open>
  C7. When the manager raises a \<open>DataSourceException\<close> inside \<open>get_value\<close> or
  \<open>set_value\<close>, the lattice raises a \<open>DataSourceException\<close> whose message names
  the requested data source and the lattice; when the manager raises a
  \<open>FieldException\<close>, the lattice raises a \<open>FieldException\<close> whose message names
  the lattice and the field. The manager's own message is replaced in both cases and
  the kind is kept.
\<close>

theorem lattice_value_errors_redescribed:
  "(mgr_get_value (lat_manager lat) field handle units data_source w
        = (w', Inl (DataSourceException, m))
      \<longrightarrow> get_value_lattice mgr_get_value lat field handle units data_source w
            = (w', Inl (DataSourceException,
                 No_data_source_on_lattice data_source (Lattice_object (lat_id lat)))))
   \<and> (mgr_get_value (lat_manager lat) field handle units data_source w
        = (w', Inl (FieldException, m))
      \<longrightarrow> get_value_lattice mgr_get_value lat field handle units data_source w
            = (w', Inl (FieldException,
                 Lattice_does_not_have_field (Lattice_object (lat_id lat)) field)))
   \<and> (mgr_set_value (lat_manager lat) field v handle units data_source w
        = (w', Some (DataSourceException, m))
      \<longrightarrow> set_value_lattice mgr_set_value lat field v handle units data_source w
            = (w', Some (DataSourceException,
                 No_data_source_on_lattice data_source (Lattice_object (lat_id lat)))))
   \<and> (mgr_set_value (lat_manager lat) field v handle units data_source w
        = (w', Some (FieldException, m))
      \<longrightarrow> set_value_lattice mgr_set_value lat field v handle units data_source w
            = (w', Some (FieldException,
                 Lattice_does_not_have_field (Lattice_object (lat_id lat)) field)))"
  by (simp add: get_value_lattice_def set_value_lattice_def)

text \<open>On the small ring, with managers that raise each of the two kinds.\<close>

theorem lattice_value_errors_redescribed_witness:
  "get_value_lattice (\<lambda>m f h u d w. (w, Inl (DataSourceException, Collaborator_message ''none'')))
       ring ''x'' RB DEFAULT DEFAULT ()
     = ((), Inl (DataSourceException, No_data_source_on_lattice DEFAULT (Lattice_object 0))
            :: error + int)
   \<and> get_value_lattice (\<lambda>m f h u d w. (w, Inl (FieldException, Collaborator_message ''none'')))
       ring ''x'' RB DEFAULT DEFAULT ()
     = ((), Inl (FieldException, Lattice_does_not_have_field (Lattice_object 0) ''x'')
            :: error + int)
   \<and> set_value_lattice (\<lambda>m f v h u d w. (w, Some (DataSourceException, Collaborator_message ''none'')))
       ring ''x'' (1::int) RB DEFAULT DEFAULT ()
     = ((), Some (DataSourceException, No_data_source_on_lattice DEFAULT (Lattice_object 0)))
   \<and> set_value_lattice (\<lambda>m f v h u d w. (w, Some (FieldException, Collaborator_message ''none'')))
       ring ''x'' (1::int) RB DEFAULT DEFAULT ()
     = ((), Some (FieldException, Lattice_does_not_have_field (Lattice_object 0) ''x''))"
proof -
  have i: "lat_id ring = 0"
    by (simp add: ring_def add_element_def Lattice_def)
  show ?thesis
    using lattice_value_errors_redescribed
        [of "\<lambda>m f h u d w. (w, Inl (DataSourceException, Collaborator_message ''none'')) :: unit \<times> (error + int)"
            ring "''x''" RB DEFAULT DEFAULT "()" "()" "Collaborator_message ''none''"
            "\<lambda>m f v h u d w. (w, Some (DataSourceException, Collaborator_message ''none''))" "1::int"]
      lattice_value_errors_redescribed
        [of "\<lambda>m f h u d w. (w, Inl (FieldException, Collaborator_message ''none'')) :: unit \<times> (error + int)"
            ring "''x''" RB DEFAULT DEFAULT "()" "()" "Collaborator_message ''none''"
            "\<lambda>m f v h u d w. (w, Some (FieldException, Collaborator_message ''none''))" "1::int"]
    by (simp add: i)
qed

section \<open>Properties of get_element_devices\<close>

lemma devices_of_skips:
  assumes "\<forall>e \<in> set es. \<forall>k m. gd e field = Inl (k, m) \<longrightarrow> k = DataSourceException"
  shows "devices_of gd field es devices printed =
     (printed @ concat (map (\<lambda>e. case gd e field of
                                  Inr d \<Rightarrow> []
                                | Inl err \<Rightarrow> [No_device_for_field_on_element field
                                                 (Element_object (elem_id e))]) es),
      Inr (devices @ concat (map (\<lambda>e. case gd e field of Inr d \<Rightarrow> [d] | Inl err \<Rightarrow> []) es)))"
  using assms
proof (induction es arbitrary: devices printed)
  case Nil
  then show ?case by simp
next
  case (Cons e es)
  have rest: "\<forall>e \<in> set es. \<forall>k m. gd e field = Inl (k, m) \<longrightarrow> k = DataSourceException"
    using Cons.prems by simp
  show ?case
  proof (cases "gd e field")
    case (Inr d)
    then show ?thesis
      using Cons.IH [OF rest, of "devices @ [d]" printed] by simp
  next
    case (Inl err)
    obtain k m where err: "err = (k, m)" by (cases err)
    have k: "k = DataSourceException"
      using Cons.prems Inl err by simp
    show ?thesis
      using Cons.IH [OF rest, of devices
          "printed @ [No_device_for_field_on_element field (Element_object (elem_id e))]"]
      by (simp add: Inl err k)
  qed
qed

text \<open>
  When every failing lookup fails with a \<open>DataSourceException\<close>, the call returns
  the devices of the elements whose lookup succeeds, in lattice order, and one line is
  printed for each element whose lookup fails.
\<close>

lemma get_element_devices_skips:
  assumes "get_elements lat family None = Inr es"
    and "\<forall>e \<in> set es. \<forall>k m. gd e field = Inl (k, m) \<longrightarrow> k = DataSourceException"
  shows "get_element_devices gd lat family field =
     (concat (map (\<lambda>e. case gd e field of
                          Inr d \<Rightarrow> []
                        | Inl err \<Rightarrow> [No_device_for_field_on_element field
                                         (Element_object (elem_id e))]) es),
      Inr (concat (map (\<lambda>e. case gd e field of Inr d \<Rightarrow> [d] | Inl err \<Rightarrow> []) es)))"
  using devices_of_skips [of es gd field "[]" "[]", OF assms(2)]
  by (simp add: get_element_devices_def assms(1))

text \<open>
  A lookup that fails with an error of another kind ends the call with that error,
  whatever the elements before it did.
\<close>

lemma devices_of_raises:
  "gd e field = Inl (k, m) \<Longrightarrow> k \<noteq> DataSourceException \<Longrightarrow>
     devices_of gd field (e # es) devices printed = (printed, Inl (k, m))"
  by simp

lemma devices_of_append:
  "devices_of gd field (xs @ ys) devices printed =
     (case devices_of gd field xs devices printed of
        (p, Inr ds) \<Rightarrow> devices_of gd field ys ds p
      | (p, Inl err) \<Rightarrow> (p, Inl err))"
  by (induction xs arbitrary: devices printed) (auto split: sum.splits)

lemma get_element_devices_raises:
  assumes ge: "get_elements lat family None = Inr (pre @ e # post)"
    and pre: "\<forall>x \<in> set pre. \<forall>k m. gd x field = Inl (k, m) \<longrightarrow> k = DataSourceException"
    and e: "gd e field = Inl (k, m)" and k: "k \<noteq> DataSourceException"
  shows "snd (get_element_devices gd lat family field) = Inl (k, m)"
proof -
  have "devices_of gd field (pre @ e # post) [] []
      = (case devices_of gd field pre [] [] of
           (p, Inr ds) \<Rightarrow> devices_of gd field (e # post) ds p
         | (p, Inl err) \<Rightarrow> (p, Inl err))"
    by (rule devices_of_append)
  then have "snd (devices_of gd field (pre @ e # post) [] []) = Inl (k, m)"
    using devices_of_skips [of pre gd field "[]" "[]", OF pre] e k by simp
  then show ?thesis
    by (simp add: get_element_devices_def ge)
qed

lemma get_elements_ring_added:
  "get_elements (add_element ring e) (Some ''BPM'') None
     = Inr ([bpm 1 ''BPM1'' 1, bpm 2 ''BPM2'' 2] @ (if ''BPM'' \<in> families e then [e] else []))"
  by (simp add: get_elements_def ring_def add_element_def Lattice_def bpm_def
      append_family_filter)

lemma get_device_element_bpm:
  "get_device_element (bpm i p c) ''x'' = Inr \<lparr>dev_name = p, rb_pv = Some (p @ '':X''), sp_pv = None\<rparr>"
  "get_device_element (bpm i p c) ''y''
     = Inl (FieldException, No_field_on_element ''y'' (Element_object i))"
  by (simp_all add: get_device_element_def bpm_def bpm_source_def)

text \<open>
  A monitor with no data source is skipped, with its line printed: this is the case the
  handler catches.
\<close>

lemma get_element_devices_no_data_source:
  "get_element_devices get_device_element (add_element ring (unwired_bpm 3 3)) (Some ''BPM'') ''x''
     = ([No_device_for_field_on_element ''x'' (Element_object 3)],
        Inr [\<lparr>dev_name = ''BPM1'', rb_pv = Some ''BPM1:X'', sp_pv = None\<rparr>,
             \<lparr>dev_name = ''BPM2'', rb_pv = Some ''BPM2:X'', sp_pv = None\<rparr>])"
proof -
  have g3: "get_device_element (unwired_bpm 3 3) ''x''
     = Inl (DataSourceException, No_data_source_for_field_on_element ''x'' (Element_object 3))"
    by (simp add: get_device_element_def unwired_bpm_def)
  have i3: "elem_id (unwired_bpm 3 3) = 3" and fam: "''BPM'' \<in> families (unwired_bpm 3 3)"
    by (simp_all add: unwired_bpm_def)
  have ge3: "get_elements (add_element ring (unwired_bpm 3 3)) (Some ''BPM'') None
     = Inr [bpm 1 ''BPM1'' 1, bpm 2 ''BPM2'' 2, unwired_bpm 3 3]"
    using get_elements_ring_added [of "unwired_bpm 3 3"] fam by simp
  show ?thesis
    by (simp add: get_element_devices_def ge3 get_device_element_bpm g3 i3)
qed


end
